theory Spec2Isabelle
  imports Complex_Main "HOL-Library.AList"
begin

section \<open>JavaScript values\<close>

text \<open>
  The values the credential fields and the request options carry. Credential data reaches
  the code decrypted from JSON, so a value is \<open>undefined\<close>, \<open>null\<close>, a boolean, a
  number, a string, an array or a plain object. A plain object is the list of its own
  enumerable entries in the order \<open>Object.entries\<close> lists them; a JavaScript object has
  each key once, which is the predicate \<open>distinct (map fst kvs)\<close> wherever a theorem
  needs it. The code does no arithmetic, so a number is carried as a \<open>real\<close>.
\<close>

datatype jsval =
    JUndefined
  | JNull
  | JBool bool
  | JNum real
  | JStr string
  | JArr "jsval list"
  | JObj "(string \<times> jsval) list"

text \<open>\<open>Record<string, string>\<close>: the own entries of an object whose values are strings.\<close>

type_synonym string_record = "(string \<times> string) list"

text \<open>The operators of the language that the source applies to such values.\<close>

fun typeof :: "jsval \<Rightarrow> string" where
  "typeof JUndefined = ''undefined''"
| "typeof JNull = ''object''"
| "typeof (JBool b) = ''boolean''"
| "typeof (JNum n) = ''number''"
| "typeof (JStr s) = ''string''"
| "typeof (JArr xs) = ''object''"
| "typeof (JObj kvs) = ''object''"

fun Array_isArray :: "jsval \<Rightarrow> bool" where
  "Array_isArray (JArr xs) = True"
| "Array_isArray v = False"

text \<open>
  \<open>Object.entries\<close> of a plain object. The source calls it only behind the guard that
  has excluded every other kind of value.
\<close>

fun Object_entries :: "jsval \<Rightarrow> (string \<times> jsval) list" where
  "Object_entries (JObj kvs) = kvs"
| "Object_entries v = []"

definition Object_keys :: "(string \<times> 'v) list \<Rightarrow> string list" where
  "Object_keys entries = map fst entries"

text \<open>
  The assignment \<open>acc[key] = s\<close> of a string \<open>s\<close> to an object created by the literal
  \<open>{}\<close>. It is an ordinary property write: a key the object has keeps its place
  and takes the new value, a key it lacks is added after the others. The one key that
  does not behave so is \<open>__proto__\<close>: the object inherits an accessor of that name from
  \<open>Object.prototype\<close>, the write reaches its setter, and the setter ignores a value
  that is neither an object nor \<open>null\<close>. A string is such a value, so the object stays as
  it was.
\<close>

definition assign_string :: "string_record \<Rightarrow> string \<Rightarrow> string \<Rightarrow> string_record" where
  "assign_string acc key s =
     (if key = ''__proto__'' then acc else AList.update key s acc)"

text \<open>
  An object spread \<open>{...acc, ...src}\<close>: the own entries of \<open>src\<close> are defined on the
  copy of \<open>acc\<close> one after the other, a later one replacing an earlier one of the same
  key. A spread defines data properties, so no key is special here. The list keeps the
  order of insertion; the language lists integer-like keys first, and no statement below
  depends on the order of a spread's result.
\<close>

definition spread :: "(string \<times> 'v) list \<Rightarrow> (string \<times> 'v) list \<Rightarrow> (string \<times> 'v) list" where
  "spread acc src = foldl (\<lambda>obj (key, val). AList.update key val obj) acc src"

section \<open>The override normalizer\<close>

text \<open>
  \<open>toRecord\<close> of \<open>credentials/VercelAiGatewayPlusApi.credentials.ts\<close>.
  \<open>JSON.parse\<close> and \<open>JSON.stringify\<close> belong to the runtime, not to this repository:
  they are the parameters \<open>JSON_parse\<close> (\<open>None\<close> where it throws) and
  \<open>JSON_stringify\<close>. A result of \<open>None\<close> is the source's \<open>undefined\<close>.
\<close>

definition toRecord ::
  "(string \<Rightarrow> jsval option) \<Rightarrow> (jsval \<Rightarrow> string) \<Rightarrow> jsval \<Rightarrow> string_record option" where
  "toRecord JSON_parse JSON_stringify v =
     (if v = JUndefined \<or> v = JNull then None
      else
        case (case v of JStr text \<Rightarrow> JSON_parse text | _ \<Rightarrow> Some v) of
          None \<Rightarrow> None
        | Some source \<Rightarrow>
            if typeof source \<noteq> ''object'' then None
            else if source = JNull then None
            else if Array_isArray source then None
            else
              let entries =
                foldl (\<lambda>acc (key, val).
                         if val = JUndefined \<or> val = JNull then acc
                         else assign_string acc key
                                (case val of JStr s \<Rightarrow> s | _ \<Rightarrow> JSON_stringify val))
                      [] (Object_entries source)
              in if length (Object_keys entries) > 0 then Some entries else None)"

text \<open>\<open>toRecord\<close> of the chat-model node's file, the second copy in the repository.\<close>

definition toRecord_node ::
  "(string \<Rightarrow> jsval option) \<Rightarrow> (jsval \<Rightarrow> string) \<Rightarrow> jsval \<Rightarrow> string_record option" where
  "toRecord_node JSON_parse JSON_stringify v =
     (if v = JUndefined \<or> v = JNull then None
      else
        case (case v of JStr text \<Rightarrow> JSON_parse text | _ \<Rightarrow> Some v) of
          None \<Rightarrow> None
        | Some source \<Rightarrow>
            if typeof source \<noteq> ''object'' then None
            else if source = JNull then None
            else if Array_isArray source then None
            else
              let entries =
                foldl (\<lambda>acc (key, val).
                         if val = JUndefined \<or> val = JNull then acc
                         else assign_string acc key
                                (case val of JStr s \<Rightarrow> s | _ \<Rightarrow> JSON_stringify val))
                      [] (Object_entries source)
              in if length (Object_keys entries) > 0 then Some entries else None)"

section \<open>The credential type with overrides\<close>

text \<open>
  A property read \<open>obj.key\<close> on a plain object: the value of the own entry, and
  \<open>undefined\<close> where the object has none.
\<close>

definition property :: "(string \<times> jsval) list \<Rightarrow> string \<Rightarrow> jsval" where
  "property obj key = (case map_of obj key of None \<Rightarrow> JUndefined | Some val \<Rightarrow> val)"

text \<open>\<open>obj ?? {}\<close>: the object itself, and the empty object where it is absent.\<close>

definition or_empty :: "('k \<times> 'v) list option \<Rightarrow> ('k \<times> 'v) list" where
  "or_empty obj = (case obj of None \<Rightarrow> [] | Some entries \<Rightarrow> entries)"

text \<open>A \<open>Record<string, string>\<close> read as an object whose values are strings.\<close>

definition as_values :: "string_record \<Rightarrow> (string \<times> jsval) list" where
  "as_values entries = map (\<lambda>(key, s). (key, JStr s)) entries"

text \<open>
  The request options, an object the host owns and \<open>authenticate\<close> mutates in place.
  The code touches the fields \<open>headers\<close> and \<open>qs\<close>, each an object or absent
  (\<open>None\<close>); \<open>other_fields\<close> stands for every other field of the host's
  \<open>IHttpRequestOptions\<close> (url, method, body and so on). The store maps the address
  of each such object to its fields, so that a reference is an address.
\<close>

record 'r IHttpRequestOptions =
  headers :: "(string \<times> jsval) list option"
  qs :: "(string \<times> jsval) list option"
  other_fields :: 'r

type_synonym 'r store = "nat \<Rightarrow> 'r IHttpRequestOptions"

datatype js_error = Error string

text \<open>
  \<open>VercelAiGatewayPlusApi.authenticate\<close>. The credentials are the decrypted object of
  the host, read by property. The result is the thrown error or the returned reference,
  with the store as the call leaves it. The function is \<open>async\<close>: the thrown error
  is the rejection of its promise, and \<open>await Promise.resolve(x)\<close> is \<open>x\<close>. Past
  the guard the key is a string, so the second branch of the \<open>case\<close> that binds
  \<open>apiKey\<close> is never taken.
\<close>

definition authenticate ::
  "(string \<Rightarrow> jsval option) \<Rightarrow> (jsval \<Rightarrow> string) \<Rightarrow> (string \<times> jsval) list \<Rightarrow> nat \<Rightarrow> 'r store
     \<Rightarrow> (js_error + nat) \<times> 'r store" where
  "authenticate JSON_parse JSON_stringify credentials requestOptions st =
     (if typeof (property credentials ''apiKey'') \<noteq> ''string'' then
        (Inl (Error ''API key is required for Vercel AI Gateway Plus.''), st)
      else if property credentials ''apiKey'' = JStr '''' then
        (Inl (Error ''API key is required for Vercel AI Gateway Plus.''), st)
      else
        let apiKey = (case property credentials ''apiKey'' of JStr s \<Rightarrow> s | _ \<Rightarrow> '''');
            baseHeaders =
              [(''Authorization'', ''Bearer '' @ apiKey),
               (''http-referer'', ''https://n8n.io/''),
               (''x-title'', ''n8n'')];
            additionalHeaders =
              toRecord JSON_parse JSON_stringify (property credentials ''additionalHeaders'');
            st1 = st(requestOptions := (st requestOptions)
                    \<lparr>headers := Some
                       (spread
                         (spread
                           (spread [] (or_empty (headers (st requestOptions))))
                           (as_values baseHeaders))
                         (as_values (or_empty additionalHeaders)))\<rparr>);
            additionalQuery =
              toRecord JSON_parse JSON_stringify (property credentials ''additionalQuery'')
        in case additionalQuery of
             None \<Rightarrow> (Inr requestOptions, st1)
           | Some aq \<Rightarrow>
               (Inr requestOptions,
                st1(requestOptions := (st1 requestOptions)
                  \<lparr>qs := Some
                     (spread
                       (spread [] (or_empty (qs (st1 requestOptions))))
                       (as_values aq))\<rparr>)))"

text \<open>
  The static request of the host's credential test, the object literal assigned to
  \<open>test\<close> in the class \<open>VercelAiGatewayPlusApi\<close>.
\<close>

definition VercelAiGatewayPlusApi_test :: jsval where
  "VercelAiGatewayPlusApi_test =
     JObj [(''request'', JObj
       [(''baseURL'', JStr ''={{ $credentials.url }}''),
        (''url'', JStr ''/chat/completions''),
        (''method'', JStr ''POST''),
        (''headers'', JObj
           [(''http-referer'', JStr ''https://n8n.io/''),
            (''x-title'', JStr ''n8n'')]),
        (''body'', JObj
           [(''model'', JStr ''openai/gpt-4.1-nano''),
            (''messages'', JArr [JObj [(''role'', JStr ''user''), (''content'', JStr ''test'')]]),
            (''max_tokens'', JNum 1)])])]"

section \<open>The credential type without overrides\<close>

text \<open>The object literal assigned to \<open>test\<close> in the class \<open>AdalinkAiGatewayApi\<close>.\<close>

definition AdalinkAiGatewayApi_test :: jsval where
  "AdalinkAiGatewayApi_test =
     JObj [(''request'', JObj
       [(''baseURL'', JStr ''={{ $credentials.url }}''),
        (''url'', JStr ''/chat/completions''),
        (''method'', JStr ''POST''),
        (''headers'', JObj
           [(''http-referer'', JStr ''https://n8n.io/''),
            (''x-title'', JStr ''n8n'')]),
        (''body'', JObj
           [(''model'', JStr ''openai/gpt-4.1-nano''),
            (''messages'', JArr [JObj [(''role'', JStr ''user''), (''content'', JStr ''test'')]]),
            (''max_tokens'', JNum 1)])])]"

text \<open>A property read \<open>v.key\<close> on a value that is a plain object.\<close>

fun member :: "jsval \<Rightarrow> string \<Rightarrow> jsval" where
  "member (JObj kvs) key = property kvs key"
| "member v key = JUndefined"

section \<open>The chat-model node\<close>

text \<open>
  The credential as the node's file types it (\<open>types.ts\<close>): an API key and a base URL,
  extended by the two optional overrides. The URL is declared a string, and the code
  allows for its absence (\<open>credentials.url ?? ''\<close>), which is \<open>None\<close>. An override
  that is absent is \<open>JUndefined\<close>.
\<close>

record OpenAICompatibleCredential =
  apiKey :: string
  url :: "string option"

record VercelAiGatewayPlusCredential = OpenAICompatibleCredential +
  additionalHeaders :: jsval
  additionalQuery :: jsval

text \<open>
  The options bag the node reads with \<open>getNodeParameter('options', itemIndex, {})\<close>.
  Every entry is optional: the user adds the ones wanted.
\<close>

datatype response_format = Text | Json_object

record node_options =
  frequencyPenalty :: "real option"
  maxTokens :: "real option"
  maxRetries :: "real option"
  timeout :: "real option"
  presencePenalty :: "real option"
  temperature :: "real option"
  topP :: "real option"
  responseFormat :: "response_format option"

text \<open>
  The name and the default of each entry of the \<open>options\<close> collection in the node's
  \<open>description.properties\<close>, in the order of the source.
\<close>

definition description_options :: "(string \<times> jsval) list" where
  "description_options =
     [(''frequencyPenalty'', JNum 0),
      (''maxTokens'', JNum (- 1)),
      (''responseFormat'', JStr ''text''),
      (''presencePenalty'', JNum 0),
      (''temperature'', JNum 0.7),
      (''timeout'', JNum 360000),
      (''maxRetries'', JNum 2),
      (''topP'', JNum 1)]"

text \<open>
  What the execution context hands to \<open>supplyData\<close>: the resolved credential and the
  node parameters, each read at an item index.
\<close>

record ISupplyDataFunctions =
  getCredentials :: VercelAiGatewayPlusCredential
  getNodeParameter_model :: "nat \<Rightarrow> string"
  getNodeParameter_user :: "nat \<Rightarrow> string"
  getNodeParameter_options :: "nat \<Rightarrow> node_options"

text \<open>
  The client configuration. The dispatcher is what the host's \<open>getProxyAgent\<close> returns,
  of a type \<open>'d\<close> this code does not look into.
\<close>

record 'd fetch_options =
  dispatcher :: 'd

record 'd ClientOptions =
  baseURL :: "string option"
  fetchOptions :: "'d fetch_options option"
  defaultHeaders :: string_record
  defaultQuery :: "string_record option"

text \<open>
  The hooks bound to the execution context, and the model keyword arguments
  \<open>{ response_format: { type: t } }\<close>.
\<close>

datatype callback = N8nLlmTracing ISupplyDataFunctions

datatype provider_handler = openAiFailedAttemptHandler

datatype failed_attempt_handler =
  makeN8nLlmFailedAttemptHandler ISupplyDataFunctions provider_handler

record model_kwargs =
  response_format_type :: response_format

text \<open>
  The object passed to \<open>new ChatOpenAI\<close>: the entries of the options bag, spread, and
  the fields the code sets beside them. \<open>timeout\<close> and \<open>maxRetries\<close> are written
  after the spread, so the values the code computes replace those of the bag.
\<close>

record 'd ChatOpenAIFields = node_options +
  apiKey :: string
  model :: string
  configuration :: "'d ClientOptions"
  callbacks :: "callback list"
  user :: "string option"
  modelKwargs :: "model_kwargs option"
  onFailedAttempt :: failed_attempt_handler

datatype 'd ChatOpenAI = ChatOpenAI (constructed_with: "'d ChatOpenAIFields")

record 'd SupplyData =
  response :: "'d ChatOpenAI"

text \<open>
  \<open>String.prototype.replace\<close> with the pattern \<open>/\/+$/\<close> and the empty replacement.
  The search runs from the left; the pattern matches at a position when what follows is
  one or more \<open>/\<close> up to the end of the string, and the first match is removed.
\<close>

fun replace_trailing_slashes :: "string \<Rightarrow> string" where
  "replace_trailing_slashes [] = []"
| "replace_trailing_slashes (c # cs) =
     (if list_all (\<lambda>x. x = CHR ''/'') (c # cs) then []
      else c # replace_trailing_slashes cs)"

text \<open>
  \<open>LmChatVercelAiGatewayPlus.supplyData\<close>. \<open>this\<close> is the execution context and
  \<open>getProxyAgent\<close> the host's resolver of a proxy agent for a URL.
\<close>

definition supplyData ::
  "(string \<Rightarrow> jsval option) \<Rightarrow> (jsval \<Rightarrow> string) \<Rightarrow> (string \<Rightarrow> 'd)
     \<Rightarrow> ISupplyDataFunctions \<Rightarrow> nat \<Rightarrow> 'd SupplyData" where
  "supplyData JSON_parse JSON_stringify getProxyAgent this itemIndex =
     (let credentials = getCredentials this;
          modelName = getNodeParameter_model this itemIndex;
          user = getNodeParameter_user this itemIndex;
          options = getNodeParameter_options this itemIndex;
          baseURL = replace_trailing_slashes (case url credentials of None \<Rightarrow> '''' | Some u \<Rightarrow> u);
          configuration =
            \<lparr>baseURL = (if baseURL \<noteq> '''' then Some baseURL else None),
             fetchOptions =
               (if baseURL \<noteq> '''' then Some \<lparr>dispatcher = getProxyAgent baseURL\<rparr> else None),
             defaultHeaders = [(''http-referer'', ''https://n8n.io/''), (''x-title'', ''n8n'')],
             defaultQuery = None\<rparr>;
          additionalHeaders =
            toRecord_node JSON_parse JSON_stringify (additionalHeaders credentials);
          configuration =
            (case additionalHeaders of
               None \<Rightarrow> configuration
             | Some ah \<Rightarrow>
                 configuration\<lparr>defaultHeaders :=
                   spread (spread [] (defaultHeaders configuration)) ah\<rparr>);
          additionalQuery =
            toRecord_node JSON_parse JSON_stringify (additionalQuery credentials);
          configuration =
            (case additionalQuery of
               None \<Rightarrow> configuration
             | Some aq \<Rightarrow>
                 configuration\<lparr>defaultQuery :=
                   Some (spread (spread [] (or_empty (defaultQuery configuration))) aq)\<rparr>);
          model = ChatOpenAI
            \<lparr>frequencyPenalty = frequencyPenalty options,
             maxTokens = maxTokens options,
             maxRetries = Some (case maxRetries options of None \<Rightarrow> 2 | Some n \<Rightarrow> n),
             timeout = Some (case timeout options of None \<Rightarrow> 60000 | Some t \<Rightarrow> t),
             presencePenalty = presencePenalty options,
             temperature = temperature options,
             topP = topP options,
             responseFormat = responseFormat options,
             apiKey = OpenAICompatibleCredential.apiKey credentials,
             model = modelName,
             configuration = configuration,
             callbacks = [N8nLlmTracing this],
             user = (if user \<noteq> '''' then Some user else None),
             modelKwargs =
               (case responseFormat options of
                  None \<Rightarrow> None
                | Some format \<Rightarrow> Some \<lparr>response_format_type = format\<rparr>),
             onFailedAttempt = makeN8nLlmFailedAttemptHandler this openAiFailedAttemptHandler\<rparr>
      in \<lparr>response = model\<rparr>)"

section \<open>The terms of the specification\<close>

text \<open>
  The entries of an object that the normalizer is to keep, described without the loop.
  \<open>entry_string\<close> is the string an entry is stored as: a string verbatim, any other
  value serialized. \<open>spec_entries\<close> follows the specification: the entries whose value
  is not \<open>null\<close> or \<open>undefined\<close>, in the object's order. \<open>kept_entries\<close> leaves
  out the entry of key \<open>__proto__\<close> as well, which is what the code returns.
\<close>

definition entry_string :: "(jsval \<Rightarrow> string) \<Rightarrow> jsval \<Rightarrow> string" where
  "entry_string JSON_stringify val = (case val of JStr s \<Rightarrow> s | _ \<Rightarrow> JSON_stringify val)"

definition kept_entries :: "(jsval \<Rightarrow> string) \<Rightarrow> (string \<times> jsval) list \<Rightarrow> string_record" where
  "kept_entries JSON_stringify kvs =
     map (\<lambda>(key, val). (key, entry_string JSON_stringify val))
       (filter (\<lambda>(key, val). val \<noteq> JUndefined \<and> val \<noteq> JNull \<and> key \<noteq> ''__proto__'') kvs)"

definition spec_entries :: "(jsval \<Rightarrow> string) \<Rightarrow> (string \<times> jsval) list \<Rightarrow> string_record" where
  "spec_entries JSON_stringify kvs =
     map (\<lambda>(key, val). (key, entry_string JSON_stringify val))
       (filter (\<lambda>(key, val). val \<noteq> JUndefined \<and> val \<noteq> JNull) kvs)"

text \<open>
  The fixed headers of the specification: the bearer token and the two attribution
  headers.
\<close>

definition fixed_headers :: "string \<Rightarrow> string_record" where
  "fixed_headers api_key =
     [(''Authorization'', ''Bearer '' @ api_key),
      (''http-referer'', ''https://n8n.io/''),
      (''x-title'', ''n8n'')]"

text \<open>
  The specification's JSON-mode directive: model keyword arguments whose
  \<open>response_format\<close> is of type \<open>json_object\<close>.
\<close>

definition json_mode_directive :: model_kwargs where
  "json_mode_directive = \<lparr>response_format_type = Json_object\<rparr>"

section \<open>A runtime and a store for the worked examples\<close>

text \<open>
  The examples below run the code on concrete inputs. \<open>example_parse\<close> agrees with
  \<open>JSON.parse\<close> on the two texts the examples parse, and \<open>example_stringify\<close> with
  \<open>JSON.stringify\<close> on the number 1; no example applies them to anything else.
  \<open>example_store\<close> holds, at every address, a request with two headers, one query
  parameter and a request line.
\<close>

definition example_parse :: "string \<Rightarrow> jsval option" where
  "example_parse text =
     (if text = ''{\"x-team\":\"blue\"}'' then Some (JObj [(''x-team'', JStr ''blue'')])
      else if text = ''{\"x\":1}'' then Some (JObj [(''x'', JNum 1)])
      else None)"

definition example_stringify :: "jsval \<Rightarrow> string" where
  "example_stringify val = (if val = JNum 1 then ''1'' else ''null'')"

definition example_store :: "string store" where
  "example_store =
     (\<lambda>a. \<lparr>headers = Some [(''accept'', JStr ''*/*''), (''x-title'', JStr ''host'')],
            qs = Some [(''page'', JStr ''2'')],
            other_fields = ''GET /models''\<rparr>)"

text \<open>
  An execution context for the examples: a credential with the given base URL and no
  overrides, the given options, an empty user tag; and a resolver of proxy agents.
\<close>

definition example_options :: "response_format option \<Rightarrow> real option \<Rightarrow> node_options" where
  "example_options format time =
     \<lparr>frequencyPenalty = None, maxTokens = None, maxRetries = None, timeout = time,
      presencePenalty = None, temperature = Some 0.7, topP = None, responseFormat = format\<rparr>"

definition example_context :: "string option \<Rightarrow> node_options \<Rightarrow> ISupplyDataFunctions" where
  "example_context base opts =
     \<lparr>getCredentials =
        \<lparr>OpenAICompatibleCredential.apiKey = ''k'', url = base,
         additionalHeaders = JUndefined, additionalQuery = JUndefined\<rparr>,
      getNodeParameter_model = (\<lambda>i. ''openai/gpt-4o''),
      getNodeParameter_user = (\<lambda>i. ''''),
      getNodeParameter_options = (\<lambda>i. opts)\<rparr>"

definition example_agent :: "string \<Rightarrow> string" where
  "example_agent base = ''proxy agent for '' @ base"

section \<open>Properties of the normalizer\<close>

text \<open>
  C5. The two copies of \<open>toRecord\<close>, the one of the credential file and the one of the
  node file, return the same result on every input, under the same runtime.
\<close>

theorem toRecord_copies_equal:
  "toRecord JSON_parse JSON_stringify v = toRecord_node JSON_parse JSON_stringify v"
  unfolding toRecord_def toRecord_node_def by (rule refl)

subsection \<open>What the normalizer returns\<close>

lemma update_fresh: "k \<notin> fst ` set al \<Longrightarrow> AList.update k v al = al @ [(k, v)]"
  by (induction al) auto

lemma reduce_entries:
  "distinct (map fst kvs) \<Longrightarrow> fst ` set acc \<inter> fst ` set kvs = {} \<Longrightarrow>
   foldl (\<lambda>acc (key, val).
            if val = JUndefined \<or> val = JNull then acc
            else assign_string acc key (case val of JStr s \<Rightarrow> s | _ \<Rightarrow> S val))
         acc kvs
   = acc @ kept_entries S kvs"
proof (induction kvs arbitrary: acc)
  case Nil
  then show ?case by (simp add: kept_entries_def)
next
  case (Cons kv kvs)
  obtain k v where kv: "kv = (k, v)" by (cases kv)
  from Cons.prems kv have fresh: "k \<notin> fst ` set acc" and rest: "distinct (map fst kvs)"
    and knot: "k \<notin> fst ` set kvs" and disj: "fst ` set acc \<inter> fst ` set kvs = {}"
    by auto
  show ?case
  proof (cases "v = JUndefined \<or> v = JNull \<or> k = ''__proto__''")
    case True
    then show ?thesis using Cons.IH [OF rest disj] kv
      by (auto simp: kept_entries_def assign_string_def)
  next
    case False
    let ?acc' = "acc @ [(k, entry_string S v)]"
    have "fst ` set ?acc' \<inter> fst ` set kvs = {}" using disj knot by auto
    from Cons.IH [OF rest this] False kv fresh show ?thesis
      by (simp add: kept_entries_def assign_string_def update_fresh entry_string_def)
  qed
qed

text \<open>Absent inputs, and inputs that are not plain objects, give no mapping.\<close>

lemma toRecord_nullish:
  "toRecord P S JUndefined = None" "toRecord P S JNull = None"
  by (simp_all add: toRecord_def)

lemma toRecord_not_object:
  "toRecord P S (JBool b) = None" "toRecord P S (JNum n) = None" "toRecord P S (JArr xs) = None"
  by (simp_all add: toRecord_def)

text \<open>
  A string is parsed first: no mapping when it does not parse or parses to anything but a
  plain object, and the mapping of the parsed object otherwise.
\<close>

lemma toRecord_string:
  "toRecord P S (JStr text) =
     (case P text of None \<Rightarrow> None
      | Some (JObj kvs) \<Rightarrow> toRecord P S (JObj kvs)
      | Some other \<Rightarrow> None)"
  by (simp add: toRecord_def split: option.splits jsval.splits)

text \<open>
  A plain object gives the entries that \<open>kept_entries\<close> lists, in the object's order,
  and no mapping when there is none.
\<close>

lemma toRecord_object:
  "distinct (map fst kvs) \<Longrightarrow>
   toRecord P S (JObj kvs) =
     (if kept_entries S kvs = [] then None else Some (kept_entries S kvs))"
  using reduce_entries [of kvs "[]" S]
  by (simp add: toRecord_def Object_keys_def)

lemma toRecord_empty_examples:
  "toRecord P S (JObj []) = None" "toRecord P S (JObj [(''a'', JNull)]) = None"
  by (simp_all add: toRecord_def Object_keys_def)

lemma toRecord_x_example:
  "P ''{\"x\":1}'' = Some (JObj [(''x'', JNum 1)]) \<Longrightarrow> S (JNum 1) = ''1'' \<Longrightarrow>
   toRecord P S (JStr ''{\"x\":1}'') = Some [(''x'', ''1'')] \<and>
   toRecord P S (JObj [(''x'', JNum 1)]) = Some [(''x'', ''1'')]"
  by (simp add: toRecord_def assign_string_def Object_keys_def)

text \<open>
  Where no key is \<open>__proto__\<close>, the code keeps what the specification says it keeps.
\<close>

lemma kept_entries_spec:
  "''__proto__'' \<notin> fst ` set kvs \<Longrightarrow> kept_entries S kvs = spec_entries S kvs"
proof -
  assume "''__proto__'' \<notin> fst ` set kvs"
  then have "filter (\<lambda>(key, val). val \<noteq> JUndefined \<and> val \<noteq> JNull \<and> key \<noteq> ''__proto__'') kvs
           = filter (\<lambda>(key, val). val \<noteq> JUndefined \<and> val \<noteq> JNull) kvs"
    by (intro filter_cong) force+
  then show ?thesis by (simp add: kept_entries_def spec_entries_def)
qed

text \<open>
  C1. The normalizer is to return the mapping of exactly the own entries whose value is
  not \<open>null\<close> or \<open>undefined\<close>. The code loses the entry of key \<open>__proto__\<close>: the object
  \<open>{"__proto__": "x", "a": "b"}\<close>, whose two values are strings, gives the mapping
  \<open>{a: "b"}\<close> where the specification's reading has both entries, and the object
  \<open>{"__proto__": "x"}\<close> gives no mapping at all where the specification's reading has
  one entry.
\<close>

theorem toRecord_proto_key_dropped:
  "toRecord JSON_parse JSON_stringify (JObj [(''__proto__'', JStr ''x''), (''a'', JStr ''b'')])
     = Some [(''a'', ''b'')]
   \<and> spec_entries JSON_stringify [(''__proto__'', JStr ''x''), (''a'', JStr ''b'')]
     = [(''__proto__'', ''x''), (''a'', ''b'')]
   \<and> toRecord JSON_parse JSON_stringify (JObj [(''__proto__'', JStr ''x'')]) = None
   \<and> spec_entries JSON_stringify [(''__proto__'', JStr ''x'')] = [(''__proto__'', ''x'')]"
  by (simp add: toRecord_def assign_string_def Object_keys_def spec_entries_def entry_string_def)

section \<open>Properties of the authenticate step\<close>

subsection \<open>Object spreads and the keys of a normalized mapping\<close>

lemma spread_map_of:
  "distinct (map fst src) \<Longrightarrow> map_of (spread acc src) = map_of acc ++ map_of src"
  unfolding spread_def
proof (induction src arbitrary: acc)
  case Nil show ?case by simp
next
  case (Cons kv src)
  let ?F = "\<lambda>obj (key, val). AList.update key val obj"
  obtain k v where kv: "kv = (k, v)" by (cases kv)
  from Cons.prems kv have fresh: "map_of src k = None" and rest: "distinct (map fst src)"
    by (auto simp: map_of_eq_None_iff)
  have "foldl ?F acc (kv # src) = foldl ?F (AList.update k v acc) src"
    by (simp add: kv)
  also have "map_of \<dots> = map_of (AList.update k v acc) ++ map_of src"
    by (rule Cons.IH [OF rest])
  also have "\<dots> = map_of acc ++ map_of ((k, v) # src)"
  proof
    fix x
    show "(map_of (AList.update k v acc) ++ map_of src) x = (map_of acc ++ map_of ((k, v) # src)) x"
      using fresh by (cases "x = k") (simp_all add: update_conv' map_add_def split: option.splits)
  qed
  finally show ?case by (simp only: kv)
qed

lemma spread_distinct: "distinct (map fst acc) \<Longrightarrow> distinct (map fst (spread acc src))"
  unfolding spread_def
  by (induction src arbitrary: acc) (auto simp: distinct_update)

lemma spread_empty: "distinct (map fst src) \<Longrightarrow> map_of (spread [] src) = map_of src"
  by (simp add: spread_map_of)

lemma toRecord_distinct: "toRecord P S v = Some r \<Longrightarrow> distinct (map fst r)"
proof -
  let ?f = "(\<lambda>acc (key, val).
            if val = JUndefined \<or> val = JNull then acc
            else assign_string acc key (case val of JStr s \<Rightarrow> s | _ \<Rightarrow> S val))"
  have inv: "distinct (map fst acc) \<Longrightarrow> distinct (map fst (foldl ?f acc kvs))" for acc kvs
    by (induction kvs arbitrary: acc) (auto simp: distinct_update assign_string_def)
  assume "toRecord P S v = Some r"
  then show ?thesis using inv [of "[]"]
    by (auto simp: toRecord_def Let_def split: if_splits option.splits jsval.splits)
qed

lemma as_values_keys: "map fst (as_values r) = map fst r"
  by (simp add: as_values_def case_prod_unfold)

lemma map_of_as_values: "map_of (as_values r) k = map_option JStr (map_of r k)"
  by (induction r) (auto simp: as_values_def)

subsection \<open>The two outcomes of the call\<close>

lemma authenticate_good_key:
  assumes "property credentials ''apiKey'' = JStr api_key" and "api_key \<noteq> ''''"
  shows "authenticate P S credentials r st =
    (Inr r,
     st(r := (st r)
       \<lparr>headers := Some
          (spread (spread (spread [] (or_empty (headers (st r)))) (as_values (fixed_headers api_key)))
             (as_values (or_empty (toRecord P S (property credentials ''additionalHeaders''))))),
        qs := (case toRecord P S (property credentials ''additionalQuery'') of
                 None \<Rightarrow> qs (st r)
               | Some aq \<Rightarrow> Some (spread (spread [] (or_empty (qs (st r)))) (as_values aq)))\<rparr>))"
  using assms
  by (simp add: authenticate_def Let_def fixed_headers_def or_empty_def split: option.splits)

lemma merged_headers:
  assumes "distinct (map fst pre)"
  shows "map_of (spread (spread (spread [] pre) (as_values (fixed_headers api_key)))
                   (as_values (or_empty (toRecord P S v))))
         = map_of pre ++ map_of (as_values (fixed_headers api_key))
             ++ map_of (as_values (or_empty (toRecord P S v)))"
proof -
  have d1: "distinct (map fst (as_values (fixed_headers api_key)))"
    by (simp add: as_values_def fixed_headers_def)
  have d2: "distinct (map fst (as_values (or_empty (toRecord P S v))))"
    by (cases "toRecord P S v") (simp_all add: as_values_keys or_empty_def toRecord_distinct)
  show ?thesis by (simp add: spread_map_of assms d1 d2)
qed

text \<open>
  C3. When the credential's \<open>apiKey\<close> is missing, is not a string, or is the empty
  string, \<open>authenticate\<close> throws the fixed error, and the store is the one it was
  given: nothing of the request options, header or query, has been written.
\<close>

theorem authenticate_rejects_bad_key:
  assumes "map_of credentials ''apiKey'' = None
         \<or> (\<exists>v. map_of credentials ''apiKey'' = Some v \<and> (\<forall>s. v \<noteq> JStr s))
         \<or> map_of credentials ''apiKey'' = Some (JStr '''')"
  shows "authenticate P S credentials r st =
           (Inl (Error ''API key is required for Vercel AI Gateway Plus.''), st)"
proof -
  let ?v = "property credentials ''apiKey''"
  from assms have "typeof ?v \<noteq> ''string'' \<or> ?v = JStr ''''"
    by (cases ?v) (auto simp: property_def split: option.splits)
  then show ?thesis by (auto simp: authenticate_def)
qed

text \<open>The three cases at concrete credentials: no key, a number, the empty string.\<close>

theorem authenticate_rejects_bad_key_witness:
  "authenticate example_parse example_stringify [(''url'', JStr ''https://x/v1'')] 0 example_store
     = (Inl (Error ''API key is required for Vercel AI Gateway Plus.''), example_store)
   \<and> authenticate example_parse example_stringify [(''apiKey'', JNum 5)] 0 example_store
     = (Inl (Error ''API key is required for Vercel AI Gateway Plus.''), example_store)
   \<and> authenticate example_parse example_stringify [(''apiKey'', JStr '''')] 0 example_store
     = (Inl (Error ''API key is required for Vercel AI Gateway Plus.''), example_store)"
  using authenticate_rejects_bad_key [of "[(''url'', JStr ''https://x/v1'')]" example_parse example_stringify 0 example_store]
    authenticate_rejects_bad_key [of "[(''apiKey'', JNum 5)]" example_parse example_stringify 0 example_store]
    authenticate_rejects_bad_key [of "[(''apiKey'', JStr '''')]" example_parse example_stringify 0 example_store]
  by simp

text \<open>
  C4. With a non-empty string \<open>apiKey\<close>, the headers of the request after
  \<open>authenticate\<close> are the headers it had, overridden by the three fixed headers
  (bearer token, \<open>http-referer\<close>, \<open>x-title\<close>), overridden by the normalized
  \<open>additionalHeaders\<close>. So every entry of the normalized overrides is in the result,
  also under a key that a fixed header has.
\<close>

theorem authenticate_headers_merge:
  assumes "property credentials ''apiKey'' = JStr api_key" and "api_key \<noteq> ''''"
    and "distinct (map fst (or_empty (headers (st r))))"
  shows "\<exists>hs. headers (snd (authenticate P S credentials r st) r) = Some hs
          \<and> map_of hs =
              map_of (or_empty (headers (st r)))
                ++ map_of (as_values (fixed_headers api_key))
                ++ map_of (as_values (or_empty (toRecord P S (property credentials ''additionalHeaders''))))
          \<and> (\<forall>k v. (k, v) \<in> set (or_empty (toRecord P S (property credentials ''additionalHeaders'')))
                 \<longrightarrow> map_of hs k = Some (JStr v))"
proof -
  let ?ov = "or_empty (toRecord P S (property credentials ''additionalHeaders''))"
  let ?hs = "spread (spread (spread [] (or_empty (headers (st r)))) (as_values (fixed_headers api_key)))
               (as_values ?ov)"
  have stored: "headers (snd (authenticate P S credentials r st) r) = Some ?hs"
    by (simp add: authenticate_good_key [OF assms(1,2)])
  have merged: "map_of ?hs =
      map_of (or_empty (headers (st r))) ++ map_of (as_values (fixed_headers api_key))
        ++ map_of (as_values ?ov)"
    by (rule merged_headers [OF assms(3)])
  have dov: "distinct (map fst ?ov)"
    by (cases "toRecord P S (property credentials ''additionalHeaders'')")
       (simp_all add: or_empty_def toRecord_distinct)
  have wins: "map_of ?hs k = Some (JStr v)" if "(k, v) \<in> set ?ov" for k v
  proof -
    from that dov have "map_of ?ov k = Some v" by simp
    then have "map_of (as_values ?ov) k = Some (JStr v)" by (simp add: map_of_as_values)
    then show ?thesis by (simp add: merged)
  qed
  from stored merged wins show ?thesis by blast
qed

text \<open>
  The specification's example: \<open>additionalHeaders = '{"x-team":"blue"}'\<close> gives
  \<open>x-team: blue\<close> beside the bearer token and the two attribution headers; the fixed
  \<open>x-title\<close> replaces the one the request had, and the request's \<open>accept\<close> stays.
\<close>

theorem authenticate_headers_merge_witness:
  "\<exists>hs. headers (snd (authenticate example_parse example_stringify
            [(''apiKey'', JStr ''k''), (''additionalHeaders'', JStr ''{\"x-team\":\"blue\"}'')]
            0 example_store) 0) = Some hs
      \<and> map_of hs ''x-team'' = Some (JStr ''blue'')
      \<and> map_of hs ''Authorization'' = Some (JStr ''Bearer k'')
      \<and> map_of hs ''http-referer'' = Some (JStr ''https://n8n.io/'')
      \<and> map_of hs ''x-title'' = Some (JStr ''n8n'')
      \<and> map_of hs ''accept'' = Some (JStr ''*/*'')"
proof -
  let ?c = "[(''apiKey'', JStr ''k''), (''additionalHeaders'', JStr ''{\"x-team\":\"blue\"}'')]"
  have key: "property ?c ''apiKey'' = JStr ''k''" and ne: "''k'' \<noteq> ''''"
    by (simp_all add: property_def)
  have pre: "distinct (map fst (or_empty (headers (example_store 0))))"
    by (simp add: example_store_def or_empty_def)
  have ov: "toRecord example_parse example_stringify (property ?c ''additionalHeaders'')
              = Some [(''x-team'', ''blue'')]"
    by (simp add: property_def toRecord_def example_parse_def assign_string_def Object_keys_def)
  from authenticate_headers_merge [where st = example_store and r = 0 and P = example_parse
      and S = example_stringify, OF key ne pre] ov
  obtain hs where
    "headers (snd (authenticate example_parse example_stringify ?c 0 example_store) 0) = Some hs"
    and "map_of hs = map_of (or_empty (headers (example_store 0)))
                      ++ map_of (as_values (fixed_headers ''k''))
                      ++ map_of (as_values [(''x-team'', ''blue'')])"
    by (auto simp: or_empty_def)
  then show ?thesis
    by (intro exI [of _ hs])
       (simp add: example_store_def or_empty_def as_values_def fixed_headers_def)
qed

text \<open>
  C8. With a non-empty string \<open>apiKey\<close>, \<open>authenticate\<close> returns the reference it was
  given. In the store, only the object at that reference differs, and only in its fields
  \<open>headers\<close> and \<open>qs\<close>. The field \<open>qs\<close> is the old one when \<open>additionalQuery\<close>
  normalizes to nothing, and otherwise the old query entries overridden by the normalized
  ones.
\<close>

theorem authenticate_frame:
  assumes "property credentials ''apiKey'' = JStr api_key" and "api_key \<noteq> ''''"
    and "distinct (map fst (or_empty (qs (st r))))"
  shows "fst (authenticate P S credentials r st) = Inr r
       \<and> (\<exists>hs q. snd (authenticate P S credentials r st) = st(r := (st r)\<lparr>headers := hs, qs := q\<rparr>))
       \<and> (\<forall>a. a \<noteq> r \<longrightarrow> snd (authenticate P S credentials r st) a = st a)
       \<and> other_fields (snd (authenticate P S credentials r st) r) = other_fields (st r)
       \<and> (toRecord P S (property credentials ''additionalQuery'') = None
            \<longrightarrow> qs (snd (authenticate P S credentials r st) r) = qs (st r))
       \<and> (\<forall>aq. toRecord P S (property credentials ''additionalQuery'') = Some aq
            \<longrightarrow> (\<exists>q. qs (snd (authenticate P S credentials r st) r) = Some q
                   \<and> map_of q = map_of (or_empty (qs (st r))) ++ map_of (as_values aq)))"
proof -
  note eq = authenticate_good_key [OF assms(1,2), of P S r st]
  have merge: "map_of (spread (spread [] (or_empty (qs (st r)))) (as_values aq))
             = map_of (or_empty (qs (st r))) ++ map_of (as_values aq)"
    if "toRecord P S (property credentials ''additionalQuery'') = Some aq" for aq
    using toRecord_distinct [OF that] assms(3) by (simp add: spread_map_of as_values_keys)
  have 1: "fst (authenticate P S credentials r st) = Inr r" by (simp add: eq)
  have 2: "\<exists>hs q. snd (authenticate P S credentials r st) = st(r := (st r)\<lparr>headers := hs, qs := q\<rparr>)"
    unfolding eq snd_conv by blast
  have 3: "\<forall>a. a \<noteq> r \<longrightarrow> snd (authenticate P S credentials r st) a = st a" by (simp add: eq)
  have 4: "other_fields (snd (authenticate P S credentials r st) r) = other_fields (st r)"
    by (simp add: eq)
  have 5: "toRecord P S (property credentials ''additionalQuery'') = None
            \<longrightarrow> qs (snd (authenticate P S credentials r st) r) = qs (st r)" by (simp add: eq)
  have 6: "\<forall>aq. toRecord P S (property credentials ''additionalQuery'') = Some aq
            \<longrightarrow> (\<exists>q. qs (snd (authenticate P S credentials r st) r) = Some q
                   \<and> map_of q = map_of (or_empty (qs (st r))) ++ map_of (as_values aq))"
    using merge by (simp add: eq)
  from 1 2 3 4 5 6 show ?thesis by blast
qed

text \<open>
  At concrete credentials with \<open>additionalQuery = {team: "blue"}\<close>: the same reference
  comes back, the request line and the other addresses are untouched, and the query has
  the old \<open>page\<close> and the new \<open>team\<close>.
\<close>

theorem authenticate_frame_witness:
  "fst (authenticate example_parse example_stringify
          [(''apiKey'', JStr ''k''), (''additionalQuery'', JObj [(''team'', JStr ''blue'')])]
          0 example_store) = Inr 0
   \<and> snd (authenticate example_parse example_stringify
          [(''apiKey'', JStr ''k''), (''additionalQuery'', JObj [(''team'', JStr ''blue'')])]
          0 example_store) 1 = example_store 1
   \<and> other_fields (snd (authenticate example_parse example_stringify
          [(''apiKey'', JStr ''k''), (''additionalQuery'', JObj [(''team'', JStr ''blue'')])]
          0 example_store) 0) = ''GET /models''
   \<and> (\<exists>q. qs (snd (authenticate example_parse example_stringify
          [(''apiKey'', JStr ''k''), (''additionalQuery'', JObj [(''team'', JStr ''blue'')])]
          0 example_store) 0) = Some q
        \<and> map_of q ''page'' = Some (JStr ''2'') \<and> map_of q ''team'' = Some (JStr ''blue''))"
proof -
  let ?c = "[(''apiKey'', JStr ''k''), (''additionalQuery'', JObj [(''team'', JStr ''blue'')])]"
  have key: "property ?c ''apiKey'' = JStr ''k''" and ne: "''k'' \<noteq> ''''"
    by (simp_all add: property_def)
  have pre: "distinct (map fst (or_empty (qs (example_store 0))))"
    by (simp add: example_store_def or_empty_def)
  have aq: "toRecord example_parse example_stringify (property ?c ''additionalQuery'')
              = Some [(''team'', ''blue'')]"
    by (simp add: property_def toRecord_def assign_string_def Object_keys_def)
  note frame = authenticate_frame [where st = example_store and r = 0 and P = example_parse
      and S = example_stringify, OF key ne pre]
  from frame aq obtain q where
    q: "qs (snd (authenticate example_parse example_stringify ?c 0 example_store) 0) = Some q"
       "map_of q = map_of (or_empty (qs (example_store 0))) ++ map_of (as_values [(''team'', ''blue'')])"
    by blast
  have lookups: "map_of q ''page'' = Some (JStr ''2'')" "map_of q ''team'' = Some (JStr ''blue'')"
    by (simp_all add: q(2) example_store_def or_empty_def as_values_def)
  have other: "other_fields (example_store 0) = ''GET /models''"
    by (simp add: example_store_def)
  from frame q(1) lookups other show ?thesis by auto
qed

section \<open>Properties of the chat-model node\<close>

subsection \<open>Removing the trailing slashes\<close>

lemma rts_all: "list_all (\<lambda>x. x = CHR ''/'') s \<Longrightarrow> replace_trailing_slashes s = []"
  by (cases s) auto

lemma all_same_replicate: "list_all (\<lambda>x. x = a) xs \<Longrightarrow> xs = replicate (length xs) a"
  by (induction xs) simp_all

lemma rts_decompose:
  "\<exists>n. s = replace_trailing_slashes s @ replicate n CHR ''/''"
proof (induction s)
  case Nil show ?case by simp
next
  case (Cons c cs)
  show ?case
  proof (cases "list_all (\<lambda>x. x = CHR ''/'') (c # cs)")
    case True
    then have A: "replace_trailing_slashes (c # cs) = []" by simp
    from True have B: "c # cs = replicate (length (c # cs)) CHR ''/''"
      by (rule all_same_replicate)
    have "c # cs = replace_trailing_slashes (c # cs) @ replicate (length (c # cs)) CHR ''/''"
      unfolding A append_Nil by (rule B)
    then show ?thesis by (rule exI)
  next
    case False
    then have R: "replace_trailing_slashes (c # cs) = c # replace_trailing_slashes cs"
      by (simp only: replace_trailing_slashes.simps if_False)
    from Cons.IH obtain n where N: "cs = replace_trailing_slashes cs @ replicate n CHR ''/''" ..
    have "c # cs = c # (replace_trailing_slashes cs @ replicate n CHR ''/'')"
      by (rule arg_cong [where f = "(#) c", OF N])
    then have "c # cs = replace_trailing_slashes (c # cs) @ replicate n CHR ''/''"
      unfolding R append_Cons .
    then show ?thesis by (rule exI)
  qed
qed

lemma rts_last: "replace_trailing_slashes s \<noteq> [] \<Longrightarrow> last (replace_trailing_slashes s) \<noteq> CHR ''/''"
proof (induction s)
  case Nil then show ?case by simp
next
  case (Cons c cs)
  show ?case
  proof (cases "list_all (\<lambda>x. x = CHR ''/'') (c # cs)")
    case True with Cons.prems show ?thesis by simp
  next
    case False
    show ?thesis
    proof (cases "replace_trailing_slashes cs = []")
      case True
      have "list_all (\<lambda>x. x = CHR ''/'') cs"
        using True by (cases cs) (auto split: if_splits)
      with False have "c \<noteq> CHR ''/''" by auto
      with True False show ?thesis by simp
    next
      case F2: False
      with False Cons.IH show ?thesis by auto
    qed
  qed
qed

lemma rts_empty_iff: "replace_trailing_slashes s = [] \<longleftrightarrow> list_all (\<lambda>x. x = CHR ''/'') s"
  by (cases s) (auto split: if_splits)

lemma rts_replicate: "replace_trailing_slashes (replicate n CHR ''/'') = []"
  by (simp add: rts_empty_iff list_all_iff)

lemma rts_dropWhile: "replace_trailing_slashes s = rev (dropWhile (\<lambda>x. x = CHR ''/'') (rev s))"
proof -
  obtain n where n: "s = replace_trailing_slashes s @ replicate n CHR ''/''"
    using rts_decompose by blast
  let ?r = "replace_trailing_slashes s"
  have "rev s = replicate n CHR ''/'' @ rev ?r" by (subst n) simp
  moreover have "dropWhile (\<lambda>x. x = CHR ''/'') (replicate n CHR ''/'' @ rev ?r) = rev ?r"
  proof (cases "?r = []")
    case True then show ?thesis by simp
  next
    case False
    then have "hd (rev ?r) \<noteq> CHR ''/''" using rts_last [of s] by (simp add: hd_rev)
    then have "dropWhile (\<lambda>x. x = CHR ''/'') (rev ?r) = rev ?r"
      using False by (cases "rev ?r") auto
    then show ?thesis by (simp add: dropWhile_append)
  qed
  ultimately show ?thesis by simp
qed

subsection \<open>The fields of the constructed client\<close>

lemma supplyData_fields:
  "modelKwargs (constructed_with (response (supplyData P S G this i))) =
     (case responseFormat (getNodeParameter_options this i) of
        None \<Rightarrow> None
      | Some format \<Rightarrow> Some \<lparr>response_format_type = format\<rparr>)"
  "timeout (constructed_with (response (supplyData P S G this i))) =
     Some (case timeout (getNodeParameter_options this i) of None \<Rightarrow> 60000 | Some t \<Rightarrow> t)"
  "maxRetries (constructed_with (response (supplyData P S G this i))) =
     Some (case maxRetries (getNodeParameter_options this i) of None \<Rightarrow> 2 | Some n \<Rightarrow> n)"
  by (simp_all add: supplyData_def Let_def)

lemma supplyData_configuration:
  "baseURL (configuration (constructed_with (response (supplyData P S G this i)))) =
     (if replace_trailing_slashes (case url (getCredentials this) of None \<Rightarrow> '''' | Some u \<Rightarrow> u) \<noteq> ''''
      then Some (replace_trailing_slashes (case url (getCredentials this) of None \<Rightarrow> '''' | Some u \<Rightarrow> u))
      else None)"
  "fetchOptions (configuration (constructed_with (response (supplyData P S G this i)))) =
     (if replace_trailing_slashes (case url (getCredentials this) of None \<Rightarrow> '''' | Some u \<Rightarrow> u) \<noteq> ''''
      then Some \<lparr>dispatcher =
             G (replace_trailing_slashes (case url (getCredentials this) of None \<Rightarrow> '''' | Some u \<Rightarrow> u))\<rparr>
      else None)"
  by (simp_all add: supplyData_def Let_def split: option.splits)

text \<open>
  C2. When the options set \<open>responseFormat\<close> to \<open>json_object\<close>, the client is
  constructed with the JSON-mode directive: model keyword arguments whose
  \<open>response_format\<close> is of type \<open>json_object\<close>. When \<open>responseFormat\<close> is
  \<open>text\<close>, the keyword arguments carry a \<open>response_format\<close> of type \<open>text\<close>,
  which is not the JSON-mode directive; when it is unset, the client gets no model keyword
  arguments at all.
\<close>

theorem supplyData_response_format:
  "(responseFormat (getNodeParameter_options this i) = Some Json_object \<longrightarrow>
      modelKwargs (constructed_with (response (supplyData P S G this i))) = Some json_mode_directive)
   \<and> (responseFormat (getNodeParameter_options this i) = Some Text \<longrightarrow>
      modelKwargs (constructed_with (response (supplyData P S G this i)))
        = Some \<lparr>response_format_type = Text\<rparr>
      \<and> modelKwargs (constructed_with (response (supplyData P S G this i)))
        \<noteq> Some json_mode_directive)
   \<and> (responseFormat (getNodeParameter_options this i) = None \<longrightarrow>
      modelKwargs (constructed_with (response (supplyData P S G this i))) = None)"
  by (simp add: supplyData_fields json_mode_directive_def)

text \<open>The three cases at a concrete context.\<close>

theorem supplyData_response_format_witness:
  "modelKwargs (constructed_with (response (supplyData example_parse example_stringify example_agent
      (example_context (Some ''https://x/v1/'') (example_options (Some Json_object) None)) 0)))
     = Some json_mode_directive
   \<and> modelKwargs (constructed_with (response (supplyData example_parse example_stringify example_agent
      (example_context (Some ''https://x/v1/'') (example_options (Some Text) None)) 0)))
     = Some \<lparr>response_format_type = Text\<rparr>
   \<and> modelKwargs (constructed_with (response (supplyData example_parse example_stringify example_agent
      (example_context (Some ''https://x/v1/'') (example_options None None)) 0)))
     = None"
proof -
  have j: "responseFormat (getNodeParameter_options
             (example_context (Some ''https://x/v1/'') (example_options (Some Json_object) None)) 0)
           = Some Json_object"
    and t: "responseFormat (getNodeParameter_options
             (example_context (Some ''https://x/v1/'') (example_options (Some Text) None)) 0)
           = Some Text"
    and n: "responseFormat (getNodeParameter_options
             (example_context (Some ''https://x/v1/'') (example_options None None)) 0)
           = None"
    by (simp_all add: example_context_def example_options_def)
  from j t n
    supplyData_response_format [where this = "example_context (Some ''https://x/v1/'') (example_options (Some Json_object) None)"
      and i = 0 and P = example_parse and S = example_stringify and G = example_agent]
    supplyData_response_format [where this = "example_context (Some ''https://x/v1/'') (example_options (Some Text) None)"
      and i = 0 and P = example_parse and S = example_stringify and G = example_agent]
    supplyData_response_format [where this = "example_context (Some ''https://x/v1/'') (example_options None None)"
      and i = 0 and P = example_parse and S = example_stringify and G = example_agent]
  show ?thesis by blast
qed

text \<open>
  C6. The client's \<open>timeout\<close> is the one of the options when they have one and
  60000 otherwise; its \<open>maxRetries\<close> is the one of the options when they have one and
  2 otherwise. The default the node's property list declares for the \<open>timeout\<close> field
  is 360000.
\<close>

theorem supplyData_timeout_retries:
  "(\<forall>t. timeout (getNodeParameter_options this i) = Some t \<longrightarrow>
        timeout (constructed_with (response (supplyData P S G this i))) = Some t)
   \<and> (timeout (getNodeParameter_options this i) = None \<longrightarrow>
        timeout (constructed_with (response (supplyData P S G this i))) = Some 60000)
   \<and> (\<forall>n. maxRetries (getNodeParameter_options this i) = Some n \<longrightarrow>
        maxRetries (constructed_with (response (supplyData P S G this i))) = Some n)
   \<and> (maxRetries (getNodeParameter_options this i) = None \<longrightarrow>
        maxRetries (constructed_with (response (supplyData P S G this i))) = Some 2)
   \<and> map_of description_options ''timeout'' = Some (JNum 360000)"
  by (simp add: supplyData_fields description_options_def)

text \<open>No timeout and no retry count set, and a timeout of 5000 set.\<close>

theorem supplyData_timeout_retries_witness:
  "timeout (constructed_with (response (supplyData example_parse example_stringify example_agent
      (example_context (Some ''https://x/v1/'') (example_options None None)) 0))) = Some 60000
   \<and> maxRetries (constructed_with (response (supplyData example_parse example_stringify example_agent
      (example_context (Some ''https://x/v1/'') (example_options None None)) 0))) = Some 2
   \<and> timeout (constructed_with (response (supplyData example_parse example_stringify example_agent
      (example_context (Some ''https://x/v1/'') (example_options None (Some 5000))) 0))) = Some 5000"
proof -
  have a: "timeout (getNodeParameter_options
             (example_context (Some ''https://x/v1/'') (example_options None None)) 0) = None"
    and b: "maxRetries (getNodeParameter_options
             (example_context (Some ''https://x/v1/'') (example_options None None)) 0) = None"
    and c: "timeout (getNodeParameter_options
             (example_context (Some ''https://x/v1/'') (example_options None (Some 5000))) 0) = Some 5000"
    by (simp_all add: example_context_def example_options_def)
  from a b c
    supplyData_timeout_retries [where this = "example_context (Some ''https://x/v1/'') (example_options None None)"
      and i = 0 and P = example_parse and S = example_stringify and G = example_agent]
    supplyData_timeout_retries [where this = "example_context (Some ''https://x/v1/'') (example_options None (Some 5000))"
      and i = 0 and P = example_parse and S = example_stringify and G = example_agent]
  show ?thesis by blast
qed

text \<open>
  C7. The base URL the configuration is built from is the credential's \<open>url\<close> without
  its trailing slashes: the \<open>url\<close> is that string followed by slashes only, and that
  string does not end in a slash. Where it is not empty, it is the configuration's
  \<open>baseURL\<close> and the configuration has the dispatcher that \<open>getProxyAgent\<close> gives
  for it; where it is empty, the configuration has no dispatcher (and no \<open>baseURL\<close>).
\<close>

theorem supplyData_baseURL:
  assumes "url (getCredentials this) = Some u"
  shows "(\<exists>n. u = replace_trailing_slashes u @ replicate n CHR ''/'')
       \<and> (replace_trailing_slashes u = [] \<or> last (replace_trailing_slashes u) \<noteq> CHR ''/'')
       \<and> baseURL (configuration (constructed_with (response (supplyData P S G this i))))
           = (if replace_trailing_slashes u = [] then None else Some (replace_trailing_slashes u))
       \<and> fetchOptions (configuration (constructed_with (response (supplyData P S G this i))))
           = (if replace_trailing_slashes u = [] then None
              else Some \<lparr>dispatcher = G (replace_trailing_slashes u)\<rparr>)"
  using assms rts_decompose [of u] rts_last [of u]
  by (simp add: supplyData_configuration)

text \<open>The specification's example, \<open>https://x/v1/\<close>.\<close>

theorem supplyData_baseURL_witness:
  "baseURL (configuration (constructed_with (response (supplyData example_parse example_stringify
      example_agent (example_context (Some ''https://x/v1/'') (example_options None None)) 0))))
     = Some ''https://x/v1''
   \<and> fetchOptions (configuration (constructed_with (response (supplyData example_parse
      example_stringify example_agent
      (example_context (Some ''https://x/v1/'') (example_options None None)) 0))))
     = Some \<lparr>dispatcher = ''proxy agent for https://x/v1''\<rparr>"
proof -
  have u: "url (getCredentials (example_context (Some ''https://x/v1/'') (example_options None None)))
             = Some ''https://x/v1/''"
    by (simp add: example_context_def)
  have r: "replace_trailing_slashes ''https://x/v1/'' = ''https://x/v1''"
    by simp
  from supplyData_baseURL [OF u, where P = example_parse and S = example_stringify
      and G = example_agent and i = 0]
  show ?thesis by (simp add: r example_agent_def)
qed

text \<open>
  C10. When the credential's \<open>url\<close> is missing, empty, or made of slashes only, the
  configuration's \<open>baseURL\<close> is absent (not the empty string) and there are no fetch
  options, so no dispatcher.
\<close>

theorem supplyData_no_baseURL:
  assumes "url (getCredentials this) = None
         \<or> (\<exists>n. url (getCredentials this) = Some (replicate n CHR ''/''))"
  shows "baseURL (configuration (constructed_with (response (supplyData P S G this i)))) = None
       \<and> fetchOptions (configuration (constructed_with (response (supplyData P S G this i)))) = None"
  using assms by (auto simp: supplyData_configuration rts_replicate)

text \<open>A missing URL, the empty URL and the URL \<open>///\<close>.\<close>

theorem supplyData_no_baseURL_witness:
  "baseURL (configuration (constructed_with (response (supplyData example_parse example_stringify
      example_agent (example_context None (example_options None None)) 0)))) = None
   \<and> fetchOptions (configuration (constructed_with (response (supplyData example_parse
      example_stringify example_agent (example_context None (example_options None None)) 0)))) = None
   \<and> baseURL (configuration (constructed_with (response (supplyData example_parse example_stringify
      example_agent (example_context (Some '''') (example_options None None)) 0)))) = None
   \<and> fetchOptions (configuration (constructed_with (response (supplyData example_parse
      example_stringify example_agent (example_context (Some '''') (example_options None None)) 0)))) = None
   \<and> baseURL (configuration (constructed_with (response (supplyData example_parse example_stringify
      example_agent (example_context (Some ''///'') (example_options None None)) 0)))) = None
   \<and> fetchOptions (configuration (constructed_with (response (supplyData example_parse
      example_stringify example_agent (example_context (Some ''///'') (example_options None None)) 0)))) = None"
proof -
  have a: "url (getCredentials (example_context None (example_options None None))) = None"
    by (simp add: example_context_def)
  have b: "url (getCredentials (example_context (Some '''') (example_options None None)))
             = Some (replicate 0 CHR ''/'')"
    by (simp add: example_context_def)
  have c: "url (getCredentials (example_context (Some ''///'') (example_options None None)))
             = Some (replicate 3 CHR ''/'')"
    by (simp add: example_context_def numeral_3_eq_3)
  from a have a': "url (getCredentials (example_context None (example_options None None))) = None
     \<or> (\<exists>n. url (getCredentials (example_context None (example_options None None)))
            = Some (replicate n CHR ''/''))" by blast
  from b have b': "url (getCredentials (example_context (Some '''') (example_options None None))) = None
     \<or> (\<exists>n. url (getCredentials (example_context (Some '''') (example_options None None)))
            = Some (replicate n CHR ''/''))" by blast
  from c have c': "url (getCredentials (example_context (Some ''///'') (example_options None None))) = None
     \<or> (\<exists>n. url (getCredentials (example_context (Some ''///'') (example_options None None)))
            = Some (replicate n CHR ''/''))" by blast
  from supplyData_no_baseURL [OF a', where P = example_parse and S = example_stringify
      and G = example_agent and i = 0]
    supplyData_no_baseURL [OF b', where P = example_parse and S = example_stringify
      and G = example_agent and i = 0]
    supplyData_no_baseURL [OF c', where P = example_parse and S = example_stringify
      and G = example_agent and i = 0]
  show ?thesis by blast
qed

section \<open>Properties of the credential tests\<close>

text \<open>
  C9. The two credential types declare the same test request: method \<open>POST\<close>, path
  \<open>/chat/completions\<close> under the base URL that the host resolves from the credential's
  \<open>url\<close>, the two attribution headers, and a body of exactly the model
  \<open>openai/gpt-4.1-nano\<close>, one user message \<open>test\<close> and \<open>max_tokens\<close> 1.
\<close>

theorem test_requests_identical:
  "VercelAiGatewayPlusApi_test = AdalinkAiGatewayApi_test
   \<and> member (member AdalinkAiGatewayApi_test ''request'') ''method'' = JStr ''POST''
   \<and> member (member AdalinkAiGatewayApi_test ''request'') ''url'' = JStr ''/chat/completions''
   \<and> member (member AdalinkAiGatewayApi_test ''request'') ''baseURL'' = JStr ''={{ $credentials.url }}''
   \<and> member (member AdalinkAiGatewayApi_test ''request'') ''headers''
       = JObj [(''http-referer'', JStr ''https://n8n.io/''), (''x-title'', JStr ''n8n'')]
   \<and> member (member (member AdalinkAiGatewayApi_test ''request'') ''body'') ''model''
       = JStr ''openai/gpt-4.1-nano''
   \<and> member (member (member AdalinkAiGatewayApi_test ''request'') ''body'') ''messages''
       = JArr [JObj [(''role'', JStr ''user''), (''content'', JStr ''test'')]]
   \<and> member (member (member AdalinkAiGatewayApi_test ''request'') ''body'') ''max_tokens''
       = JNum 1
   \<and> map fst (Object_entries (member (member AdalinkAiGatewayApi_test ''request'') ''body''))
       = [''model'', ''messages'', ''max_tokens'']"
  by (simp add: VercelAiGatewayPlusApi_test_def AdalinkAiGatewayApi_test_def property_def)

end
